theory Spec2Isabelle
  imports Main
begin

section \<open>Wall-clock times as the code handles them\<close>

text \<open>
  The routes meet a time of day in three forms. A request carries it as a string
  \<^verbatim>\<open>HH:mm\<close>, accepted by the zod pattern \<^verbatim>\<open>/^([01]\d|2[0-3]):([0-5]\d)$/\<close>. A row read from
  the database carries a TIME column as the text the driver hands over, \<^verbatim>\<open>HH:MM:SS\<close>
  (config/database.ts uses the pool of node-postgres as it comes; no type parser is set
  anywhere), although types/index.ts documents the field as \<^verbatim>\<open>start_time: string; // HH:mm\<close>.
  Inside the slot loop it is a JavaScript Date obtained with date-fns
  \<^verbatim>\<open>parse(s, 'HH:mm', dateObj)\<close>, moved with \<^verbatim>\<open>addMinutes\<close>, compared with
  \<^verbatim>\<open>isBefore\<close>/\<^verbatim>\<open>isAfter\<close> and rendered back with \<^verbatim>\<open>format(d, 'HH:mm')\<close>.

  A Date is modelled as the whole number of minutes between it and midnight of
  \<^verbatim>\<open>dateObj\<close> (seconds and milliseconds are zero throughout, since \<^verbatim>\<open>dateObj\<close> comes from
  a date-only pattern). \<^verbatim>\<open>format\<close> keeps the time of day only, so it reduces modulo the
  1440 minutes of a day. This time line is that of a day on which the server's zone keeps
  one offset; on a day with a daylight-saving change date-fns renders local times that
  jump by the change, which this time line does not show, and nothing below is stated
  about the rendered times of such a day.
\<close>

definition is_digit :: "char \<Rightarrow> bool" where
  "is_digit c = (48 \<le> (of_char c :: nat) \<and> (of_char c :: nat) \<le> 57)"

definition digit_val :: "char \<Rightarrow> nat" where
  "digit_val c = (of_char c :: nat) - 48"

definition digit_char :: "nat \<Rightarrow> char" where
  "digit_char n = char_of (48 + n)"

text \<open>The zod pattern \<^verbatim>\<open>/^([01]\d|2[0-3]):([0-5]\d)$/\<close> of every schema that takes a time.\<close>

fun is_HHmm :: "string \<Rightarrow> bool" where
  "is_HHmm [h1, h2, c, m1, m2] =
     ((((h1 = CHR ''0'' \<or> h1 = CHR ''1'') \<and> is_digit h2) \<or>
       (h1 = CHR ''2'' \<and> is_digit h2 \<and> digit_val h2 \<le> 3)) \<and>
      c = CHR '':'' \<and>
      (is_digit m1 \<and> digit_val m1 \<le> 5) \<and> is_digit m2)"
| "is_HHmm _ = False"

text \<open>
  \<^verbatim>\<open>parse(s, 'HH:mm', dateObj)\<close>: the Date at that time on the day of \<^verbatim>\<open>dateObj\<close>, or an
  Invalid Date (\<open>None\<close>). The strings that reach it are the TIME columns of rule rows,
  \<^verbatim>\<open>HH:MM:SS\<close>: date-fns reads \<^verbatim>\<open>HH:MM\<close>, finds \<^verbatim>\<open>:SS\<close> left over and returns an Invalid
  Date. (date-fns also reads one-digit fields such as \<^verbatim>\<open>9:05\<close>; no such string arises
  here, and it is taken as invalid.)
\<close>

fun parse_HHmm :: "string \<Rightarrow> int option" where
  "parse_HHmm [h1, h2, c, m1, m2] =
     (if is_digit h1 \<and> is_digit h2 \<and> c = CHR '':'' \<and> is_digit m1 \<and> is_digit m2 \<and>
         10 * digit_val h1 + digit_val h2 \<le> 23 \<and> 10 * digit_val m1 + digit_val m2 \<le> 59
      then Some (int (60 * (10 * digit_val h1 + digit_val h2) + (10 * digit_val m1 + digit_val m2)))
      else None)"
| "parse_HHmm _ = None"

definition two_digits :: "nat \<Rightarrow> string" where
  "two_digits n = [digit_char (n div 10), digit_char (n mod 10)]"

text \<open>\<^verbatim>\<open>format(d, 'HH:mm')\<close> of a valid Date.\<close>

definition format_HHmm :: "int \<Rightarrow> string" where
  "format_HHmm t =
     (let m = nat (t mod 1440)
      in two_digits (m div 60) @ [CHR '':''] @ two_digits (m mod 60))"

definition addMinutes :: "int \<Rightarrow> int \<Rightarrow> int" where
  "addMinutes t n = t + n"

text \<open>
  \<^verbatim>\<open>isBefore(a, b)\<close> and \<^verbatim>\<open>isAfter(a, b)\<close> with a valid first argument; the second one is the
  parsed end of the rule and may be an Invalid Date, against which both are false.
\<close>

definition isBefore :: "int \<Rightarrow> int option \<Rightarrow> bool" where
  "isBefore a b = (case b of None \<Rightarrow> False | Some e \<Rightarrow> a < e)"

definition isAfter :: "int \<Rightarrow> int option \<Rightarrow> bool" where
  "isAfter a b = (case b of None \<Rightarrow> False | Some e \<Rightarrow> a > e)"

text \<open>
  The JavaScript \<^verbatim>\<open><\<close> on two strings: lexicographic on the code units, a proper prefix
  being smaller.
\<close>

fun str_less :: "string \<Rightarrow> string \<Rightarrow> bool" where
  "str_less [] [] = False"
| "str_less [] (y # ys) = True"
| "str_less (x # xs) [] = False"
| "str_less (x # xs) (y # ys) =
     ((of_char x :: nat) < of_char y \<or> (x = y \<and> str_less xs ys))"

section \<open>Slot generation\<close>

record slot =
  start_time :: string
  end_time :: string
  available :: bool

text \<open>
  A row of \<^verbatim>\<open>existingBookings\<close>: the \<^verbatim>\<open>start_time\<close> and \<^verbatim>\<open>end_time\<close> columns of a booking,
  as the text the driver hands over. \<^verbatim>\<open>isBooked\<close> compares them with the slot's \<^verbatim>\<open>HH:mm\<close>
  strings by the JavaScript \<^verbatim>\<open><\<close> and \<^verbatim>\<open>>\<close>.
\<close>

type_synonym booked = "string \<times> string"

definition isBooked :: "booked list \<Rightarrow> string \<Rightarrow> string \<Rightarrow> bool" where
  "isBooked existingBookings slotStart slotEnd =
     list_ex (\<lambda>booking. str_less slotStart (snd booking) \<and> str_less (fst booking) slotEnd)
       existingBookings"

text \<open>
  The \<^verbatim>\<open>while\<close> loop of both slot routes (availability GET /slots/:professionalId and
  public GET /slots; the two loops are the same statement by statement). The loop need
  not end, so the result is an option: \<open>None\<close> is a loop that runs forever.
\<close>

partial_function (option) slot_loop ::
  "int \<Rightarrow> int option \<Rightarrow> string \<Rightarrow> booked list \<Rightarrow> int \<Rightarrow> slot list \<Rightarrow> slot list option"
where
  "slot_loop durationMinutes endTime rule_end existingBookings currentTime slots =
     (if isBefore (addMinutes currentTime durationMinutes) endTime \<or>
         format_HHmm (addMinutes currentTime durationMinutes) = rule_end
      then
        (let slotStart = format_HHmm currentTime;
             slotEnd = format_HHmm (addMinutes currentTime durationMinutes);
             booked = isBooked existingBookings slotStart slotEnd;
             slots' = slots @ [\<lparr>start_time = slotStart, end_time = slotEnd,
                                available = \<not> booked\<rparr>];
             currentTime' = addMinutes currentTime durationMinutes
         in if isAfter currentTime' endTime \<or> format_HHmm currentTime' = rule_end
            then Some slots'
            else slot_loop durationMinutes endTime rule_end existingBookings currentTime' slots')
      else Some slots)"

declare slot_loop.simps [code]


section \<open>Dates\<close>

text \<open>
  A DATE value is a calendar date (year, month, day). A request carries a date as a
  string; the zod pattern of the date fields is \<^verbatim>\<open>/^\d{4}-\d{2}-\d{2}$/\<close>, which also admits
  strings that are no calendar date, such as \<^verbatim>\<open>2024-02-30\<close>.
\<close>

type_synonym sql_date = "int \<times> int \<times> int"

fun is_date :: "string \<Rightarrow> bool" where
  "is_date [y1, y2, y3, y4, d1, m1, m2, d2, t1, t2] =
     (is_digit y1 \<and> is_digit y2 \<and> is_digit y3 \<and> is_digit y4 \<and> d1 = CHR ''-'' \<and>
      is_digit m1 \<and> is_digit m2 \<and> d2 = CHR ''-'' \<and> is_digit t1 \<and> is_digit t2)"
| "is_date _ = False"

text \<open>The JavaScript \<^verbatim>\<open>s.split(c)\<close> and \<^verbatim>\<open>parts.join(c)\<close> for a one-character \<open>c\<close>.\<close>

fun split_on :: "char \<Rightarrow> string \<Rightarrow> string list" where
  "split_on c [] = [[]]"
| "split_on c (x # xs) =
     (if x = c then [] # split_on c xs
      else (case split_on c xs of [] \<Rightarrow> [[x]] | w # ws \<Rightarrow> (x # w) # ws))"

fun join_with :: "char \<Rightarrow> string list \<Rightarrow> string" where
  "join_with c [] = []"
| "join_with c [w] = w"
| "join_with c (w # v # ws) = w @ c # join_with c (v # ws)"

definition number_of :: "string \<Rightarrow> int" where
  "number_of s = foldl (\<lambda>n c. 10 * n + int (digit_val c)) 0 s"

definition leap_year :: "int \<Rightarrow> bool" where
  "leap_year y = (y mod 4 = 0 \<and> (y mod 100 \<noteq> 0 \<or> y mod 400 = 0))"

definition days_in_month :: "int \<Rightarrow> int \<Rightarrow> int" where
  "days_in_month y m =
     (if m = 2 then (if leap_year y then 29 else 28)
      else if m = 4 \<or> m = 6 \<or> m = 9 \<or> m = 11 then 30 else 31)"

text \<open>
  Reading a date written year-month-day: a four-digit year from 0001 on, a month and a day
  of one or two digits, and the day must exist in that month.
\<close>

definition calendar_date :: "string \<Rightarrow> sql_date option" where
  "calendar_date s =
     (case split_on CHR ''-'' s of
        [ys, ms, ds] \<Rightarrow>
          if length ys = 4 \<and> (length ms = 1 \<or> length ms = 2) \<and>
             (length ds = 1 \<or> length ds = 2) \<and> list_all is_digit (ys @ ms @ ds)
          then
            (let y = number_of ys; m = number_of ms; d = number_of ds
             in if 1 \<le> y \<and> 1 \<le> m \<and> m \<le> 12 \<and> 1 \<le> d \<and> d \<le> days_in_month y m
                then Some (y, m, d) else None)
          else None
      | _ \<Rightarrow> None)"

text \<open>
  A string passed as the parameter of \<^verbatim>\<open>date = $n\<close> is read by Postgres as a DATE; \<open>None\<close>
  is the error it raises for a string it cannot read (\<^verbatim>\<open>2024-02-30\<close>: date/time field value
  out of range), which the driver throws. On the strings of the zod pattern this is exact.
  Postgres reads further spellings (month names, other field orders); they can only
  arrive through GET /api/public/slots, which has no schema, and are not covered.
\<close>

definition pg_date :: "string \<Rightarrow> sql_date option" where
  "pg_date s = calendar_date s"

text \<open>
  \<^verbatim>\<open>parse(date, 'yyyy-MM-dd', new Date())\<close> of date-fns, \<open>None\<close> being an Invalid Date, and
  \<^verbatim>\<open>getDay()\<close> of the result: 0 for Sunday up to 6 for Saturday, in the proleptic Gregorian
  calendar.
\<close>

definition parse_date :: "string \<Rightarrow> sql_date option" where
  "parse_date s = calendar_date s"

definition getDay :: "sql_date \<Rightarrow> int" where
  "getDay date =
     (case date of
        (y, m, d) \<Rightarrow>
          (let y' = (if m < 3 then y - 1 else y);
               t = [0, 3, 2, 5, 0, 3, 5, 1, 4, 6, 2, 4] ! nat (m - 1)
           in (y' + y' div 4 + y' div 400 + t + d - y' div 100) mod 7))"

section \<open>The relational store\<close>

text \<open>
  The tables the slot and booking routes touch, each as the list of its rows, with the
  columns these routes read or write (timestamps, prices, the password hash, the role and
  the payment columns are left out: no statement below depends on them). Identifiers are
  the strings the code passes around. A DATE column holds a calendar date. A TIME column
  holds a minute of the day: every route that writes one passes a string of the
  \<^verbatim>\<open>HH:mm\<close> pattern, so seconds are always zero.
\<close>

type_synonym uuid = string

type_synonym sql_time = int

datatype booking_status = pending | confirmed | completed | cancelled | no_show

record service_row =
  svc_id :: uuid
  svc_tenant_id :: uuid
  svc_duration_minutes :: int
  svc_is_active :: bool

record professional_row =
  prof_id :: uuid
  prof_tenant_id :: uuid

record user_row =
  usr_id :: uuid
  usr_tenant_id :: uuid
  usr_email :: string
  usr_first_name :: string
  usr_last_name :: string
  usr_phone :: "string option"

record rule_row =
  rule_tenant_id :: uuid
  rule_professional_id :: uuid
  rule_day_of_week :: int
  rule_start_time :: sql_time
  rule_end_time :: sql_time
  rule_is_active :: bool

record exception_row =
  exc_professional_id :: uuid
  exc_date :: sql_date
  exc_is_available :: bool
  exc_start_time :: "sql_time option"
  exc_end_time :: "sql_time option"

record booking_row =
  bk_id :: uuid
  bk_tenant_id :: uuid
  bk_client_id :: "uuid option"
  bk_professional_id :: uuid
  bk_service_id :: uuid
  bk_date :: sql_date
  bk_start_time :: sql_time
  bk_end_time :: sql_time
  bk_status :: booking_status
  bk_notes :: "string option"
  bk_cancelled_by :: "uuid option"
  bk_cancellation_reason :: "string option"

record store =
  services :: "service_row list"
  professionals :: "professional_row list"
  users :: "user_row list"
  availability_rules :: "rule_row list"
  availability_exceptions :: "exception_row list"
  bookings :: "booking_row list"

text \<open>
  The outcome of a request: the error code of the JSON error body, or the payload.
  \<open>INTERNAL_ERROR\<close> is an exception that escapes the handler (an error raised by the
  database, a RangeError of date-fns); \<open>VALIDATION_ERROR\<close> is the zod middleware
  rejecting the request before the handler runs.
\<close>

datatype http_error = BAD_REQUEST | VALIDATION_ERROR | NOT_FOUND | CONFLICT | INTERNAL_ERROR

text \<open>
  A string passed as the parameter of a comparison with a TIME column, or inserted into
  one, is read by Postgres as a TIME. The strings that arrive have the zod pattern
  \<^verbatim>\<open>HH:mm\<close>, which Postgres always accepts.
\<close>

definition sql_time :: "string \<Rightarrow> sql_time option" where
  "sql_time s = parse_HHmm s"

text \<open>
  A TIME column in a returned row: node-postgres has no parser for the type and hands over
  the text Postgres sends, \<^verbatim>\<open>HH:MM:SS\<close>.
\<close>

definition time_text :: "sql_time \<Rightarrow> string" where
  "time_text t = format_HHmm t @ '':00''"

definition toLowerCase :: "string \<Rightarrow> string" where
  "toLowerCase s =
     map (\<lambda>c. if 65 \<le> (of_char c :: nat) \<and> (of_char c :: nat) \<le> 90
              then char_of ((of_char c :: nat) + 32) else c) s"

section \<open>The slot routes\<close>

text \<open>
  \<^verbatim>\<open>SELECT * FROM availability_exceptions WHERE professional_id = $1 AND date = $2\<close>,
  first row or null, once \<^verbatim>\<open>$2\<close> has been read as a DATE.
\<close>

definition select_exception :: "store \<Rightarrow> uuid \<Rightarrow> sql_date \<Rightarrow> exception_row option" where
  "select_exception st professionalId date =
     find (\<lambda>e. exc_professional_id e = professionalId \<and> exc_date e = date)
       (availability_exceptions st)"

text \<open>
  \<^verbatim>\<open>SELECT * FROM availability_rules WHERE professional_id = $1 AND tenant_id = $2
  AND day_of_week = $3 AND is_active = true ORDER BY start_time\<close>. Of each returned row
  the loop reads \<^verbatim>\<open>rule.start_time\<close> and \<^verbatim>\<open>rule.end_time\<close>, which arrive as text.
\<close>

type_synonym rule_times = "string \<times> string"

definition rule_text :: "rule_row \<Rightarrow> rule_times" where
  "rule_text r = (time_text (rule_start_time r), time_text (rule_end_time r))"

definition select_rules :: "store \<Rightarrow> uuid \<Rightarrow> uuid \<Rightarrow> int \<Rightarrow> rule_times list" where
  "select_rules st professionalId tenantId dayOfWeek =
     map rule_text
       (sort_key rule_start_time
          (filter (\<lambda>r. rule_professional_id r = professionalId \<and> rule_tenant_id r = tenantId \<and>
                        rule_day_of_week r = dayOfWeek \<and> rule_is_active r)
             (availability_rules st)))"

text \<open>
  \<^verbatim>\<open>SELECT start_time, end_time FROM bookings WHERE professional_id = $1 AND date = $2
  AND status NOT IN ('cancelled')\<close>, the two TIME columns arriving as text.
\<close>

definition booking_text :: "booking_row \<Rightarrow> booked" where
  "booking_text b = (time_text (bk_start_time b), time_text (bk_end_time b))"

definition select_existing_bookings :: "store \<Rightarrow> uuid \<Rightarrow> sql_date \<Rightarrow> booked list" where
  "select_existing_bookings st professionalId date =
     map booking_text
       (filter (\<lambda>b. bk_professional_id b = professionalId \<and> bk_date b = date \<and>
                     bk_status b \<noteq> cancelled)
          (bookings st))"

text \<open>
  The \<^verbatim>\<open>for (const rule of rules)\<close> loop around the \<^verbatim>\<open>while\<close> loop; a rule is given by its
  \<^verbatim>\<open>start_time\<close> and \<^verbatim>\<open>end_time\<close>. A rule whose \<^verbatim>\<open>start_time\<close> parses to an Invalid Date
  makes \<^verbatim>\<open>format\<close> throw a RangeError in the loop condition.
\<close>

fun generate_slots ::
  "int \<Rightarrow> booked list \<Rightarrow> rule_times list \<Rightarrow> slot list \<Rightarrow> (http_error + slot list) option"
where
  "generate_slots durationMinutes existingBookings [] slots = Some (Inr slots)"
| "generate_slots durationMinutes existingBookings ((rule_start, rule_end) # rules) slots =
     (case parse_HHmm rule_start of
        None \<Rightarrow> Some (Inl INTERNAL_ERROR)
      | Some currentTime \<Rightarrow>
          (case slot_loop durationMinutes (parse_HHmm rule_end) rule_end
                  existingBookings currentTime slots of
             None \<Rightarrow> None
           | Some slots' \<Rightarrow> generate_slots durationMinutes existingBookings rules slots'))"

text \<open>
  GET /api/availability/slots/:professionalId. The exception query is the first statement
  that passes \<open>date\<close> to the database, and the rule query passes \<^verbatim>\<open>dateObj.getDay()\<close>,
  which is NaN for an Invalid Date and then no integer.
\<close>

definition availability_getSlots ::
  "store \<Rightarrow> uuid \<Rightarrow> uuid \<Rightarrow> string \<Rightarrow> uuid option \<Rightarrow> (http_error + slot list) option"
where
  "availability_getSlots st tenantId professionalId date service_id =
     (if \<not> is_date date then Some (Inl VALIDATION_ERROR)
      else
        let durationMinutes =
              (case service_id of
                 None \<Rightarrow> 30
               | Some sid \<Rightarrow>
                   (case find (\<lambda>s. svc_id s = sid \<and> svc_tenant_id s = tenantId) (services st) of
                      None \<Rightarrow> 30
                    | Some service \<Rightarrow> svc_duration_minutes service));
            dateObj = parse_date date
        in (case pg_date date of
              None \<Rightarrow> Some (Inl INTERNAL_ERROR)
            | Some day \<Rightarrow>
                if (case select_exception st professionalId day of
                      None \<Rightarrow> False
                    | Some exception \<Rightarrow> \<not> exc_is_available exception)
                then Some (Inr [])
                else
                  (case dateObj of
                     None \<Rightarrow> Some (Inl INTERNAL_ERROR)
                   | Some d \<Rightarrow>
                       let rules = select_rules st professionalId tenantId (getDay d)
                       in if rules = [] then Some (Inr [])
                          else generate_slots durationMinutes
                                 (select_existing_bookings st professionalId day) rules [])))"

text \<open>
  GET /api/public/slots. A missing or empty query parameter is falsy; the route has no
  schema, and ends with \<^verbatim>\<open>slots.filter(s => s.available)\<close>.
\<close>

definition public_getSlots ::
  "store \<Rightarrow> uuid \<Rightarrow> uuid \<Rightarrow> uuid \<Rightarrow> string \<Rightarrow> (http_error + slot list) option"
where
  "public_getSlots st tenantId professional_id service_id date =
     (if professional_id = [] \<or> service_id = [] \<or> date = [] then Some (Inl BAD_REQUEST)
      else
        (case find (\<lambda>s. svc_id s = service_id \<and> svc_tenant_id s = tenantId \<and> svc_is_active s)
                (services st) of
           None \<Rightarrow> Some (Inl NOT_FOUND)
         | Some service \<Rightarrow>
             let durationMinutes = svc_duration_minutes service;
                 dateObj = parse_date date
             in (case pg_date date of
                   None \<Rightarrow> Some (Inl INTERNAL_ERROR)
                 | Some day \<Rightarrow>
                     if (case select_exception st professional_id day of
                           None \<Rightarrow> False
                         | Some exception \<Rightarrow> \<not> exc_is_available exception)
                     then Some (Inr [])
                     else
                       (case dateObj of
                          None \<Rightarrow> Some (Inl INTERNAL_ERROR)
                        | Some d \<Rightarrow>
                            let rules = select_rules st professional_id tenantId (getDay d)
                            in if rules = [] then Some (Inr [])
                               else
                                 (case generate_slots durationMinutes
                                         (select_existing_bookings st professional_id day)
                                         rules [] of
                                    None \<Rightarrow> None
                                  | Some (Inl e) \<Rightarrow> Some (Inl e)
                                  | Some (Inr slots) \<Rightarrow>
                                      Some (Inr (filter available slots)))))))"


section \<open>Creating a booking\<close>

text \<open>
  The body of POST /api/bookings and POST /api/public/bookings. Of the zod schemas the
  modelled checks are the patterns of \<open>date\<close>, \<open>start_time\<close> and \<open>end_time\<close>, the bound on
  \<open>notes\<close>, the presence and length of \<open>client_name\<close>, and of \<^verbatim>\<open>email()\<close> that the address
  is not empty; identifiers are taken to be well-formed UUIDs. \<open>client_email\<close> and
  \<open>client_name\<close> are optional in \<^verbatim>\<open>createBookingSchema\<close> and required in
  \<^verbatim>\<open>createPublicBookingSchema\<close>; \<open>client_phone\<close> is optional and unbounded in both.
\<close>

record booking_request =
  req_professional_id :: uuid
  req_service_id :: uuid
  req_date :: string
  req_start_time :: string
  req_end_time :: string
  req_notes :: "string option"
  req_client_email :: "string option"
  req_client_name :: "string option"
  req_client_phone :: "string option"

definition createBookingSchema :: "booking_request \<Rightarrow> bool" where
  "createBookingSchema req =
     (is_date (req_date req) \<and> is_HHmm (req_start_time req) \<and> is_HHmm (req_end_time req) \<and>
      (case req_notes req of None \<Rightarrow> True | Some notes \<Rightarrow> length notes \<le> 1000) \<and>
      (case req_client_email req of None \<Rightarrow> True | Some email \<Rightarrow> email \<noteq> []) \<and>
      (case req_client_name req of None \<Rightarrow> True | Some name \<Rightarrow> 1 \<le> length name))"

definition createPublicBookingSchema :: "booking_request \<Rightarrow> bool" where
  "createPublicBookingSchema req =
     (is_date (req_date req) \<and> is_HHmm (req_start_time req) \<and> is_HHmm (req_end_time req) \<and>
      (case req_notes req of None \<Rightarrow> True | Some notes \<Rightarrow> length notes \<le> 1000) \<and>
      (case req_client_email req of None \<Rightarrow> False | Some email \<Rightarrow> email \<noteq> []) \<and>
      (case req_client_name req of
         None \<Rightarrow> False
       | Some name \<Rightarrow> 1 \<le> length name \<and> length name \<le> 100))"

text \<open>
  The date and the two times of a request as the database reads them when they are passed
  as parameters; \<open>None\<close> is the error raised for a date that is none. The conflict query is
  the first statement that passes them.
\<close>

definition booking_params :: "booking_request \<Rightarrow> (sql_date \<times> sql_time \<times> sql_time) option" where
  "booking_params req =
     (case (pg_date (req_date req), sql_time (req_start_time req), sql_time (req_end_time req)) of
        (Some d, Some s, Some e) \<Rightarrow> Some (d, s, e)
      | _ \<Rightarrow> None)"

text \<open>
  \<^verbatim>\<open>SELECT id FROM bookings WHERE professional_id = $1 AND date = $2
  AND status NOT IN ('cancelled') AND (start_time < $4 AND end_time > $3)\<close>, first row or
  null; \<open>new_start\<close> is \<^verbatim>\<open>$3\<close> and \<open>new_end\<close> is \<^verbatim>\<open>$4\<close>.
\<close>

definition select_conflict ::
  "store \<Rightarrow> uuid \<Rightarrow> sql_date \<Rightarrow> sql_time \<Rightarrow> sql_time \<Rightarrow> booking_row option" where
  "select_conflict st professional_id date new_start new_end =
     find (\<lambda>b. bk_professional_id b = professional_id \<and> bk_date b = date \<and>
               bk_status b \<noteq> cancelled \<and>
               bk_start_time b < new_end \<and> bk_end_time b > new_start)
       (bookings st)"

text \<open>\<^verbatim>\<open>SELECT id FROM users WHERE email = $1 AND tenant_id = $2\<close>.\<close>

definition select_client :: "store \<Rightarrow> string \<Rightarrow> uuid \<Rightarrow> user_row option" where
  "select_client st email tenantId =
     find (\<lambda>u. usr_email u = email \<and> usr_tenant_id u = tenantId) (users st)"

text \<open>
  The widths of the \<^verbatim>\<open>users\<close> columns: \<^verbatim>\<open>email VARCHAR(255)\<close>, \<^verbatim>\<open>first_name VARCHAR(50)\<close>,
  \<^verbatim>\<open>last_name VARCHAR(50)\<close>, \<^verbatim>\<open>phone VARCHAR(20)\<close>. A longer value is an error, not a cut.
\<close>

definition users_columns_fit :: "user_row \<Rightarrow> bool" where
  "users_columns_fit u =
     (length (usr_email u) \<le> 255 \<and> length (usr_first_name u) \<le> 50 \<and>
      length (usr_last_name u) \<le> 50 \<and>
      (case usr_phone u of None \<Rightarrow> True | Some phone \<Rightarrow> length phone \<le> 20))"

text \<open>
  \<^verbatim>\<open>INSERT INTO users\<close> under the table's constraints (column widths, primary key,
  \<^verbatim>\<open>unique_email_per_tenant\<close>); \<open>None\<close> is the violation the driver throws. The tenant
  exists, since the tenant middleware loaded it.
\<close>

definition insert_user :: "store \<Rightarrow> user_row \<Rightarrow> store option" where
  "insert_user st u =
     (if \<not> users_columns_fit u \<or>
         list_ex (\<lambda>v. usr_id v = usr_id u) (users st) \<or>
         list_ex (\<lambda>v. usr_tenant_id v = usr_tenant_id u \<and> usr_email v = usr_email u) (users st)
      then None
      else Some (st\<lparr>users := users st @ [u]\<rparr>))"

text \<open>
  The guest row both routes insert: \<^verbatim>\<open>nameParts = name.split(' ')\<close>, first name
  \<^verbatim>\<open>nameParts[0]\<close>, last name \<^verbatim>\<open>nameParts.slice(1).join(' ') || ''\<close>, phone
  \<^verbatim>\<open>client_phone || null\<close>.
\<close>

definition guest_user :: "uuid \<Rightarrow> uuid \<Rightarrow> string \<Rightarrow> string \<Rightarrow> string option \<Rightarrow> user_row" where
  "guest_user clientId tenantId client_email name client_phone =
     (let nameParts = split_on CHR '' '' name
      in \<lparr>usr_id = clientId, usr_tenant_id = tenantId, usr_email = toLowerCase client_email,
          usr_first_name = (case nameParts of [] \<Rightarrow> [] | first # rest \<Rightarrow> first),
          usr_last_name = join_with CHR '' '' (drop 1 nameParts),
          usr_phone = (case client_phone of
                         None \<Rightarrow> None
                       | Some phone \<Rightarrow> if phone = [] then None else Some phone)\<rparr>)"

text \<open>
  \<^verbatim>\<open>INSERT INTO bookings\<close> under the table's constraints: the primary key, the foreign keys
  to \<^verbatim>\<open>users\<close>, \<^verbatim>\<open>professionals\<close> and \<^verbatim>\<open>services\<close>, and
  \<^verbatim>\<open>CONSTRAINT valid_booking_time CHECK (start_time < end_time)\<close>. The columns left out
  cannot make the insert fail: \<^verbatim>\<open>total_amount\<close> and \<^verbatim>\<open>currency\<close> are copied from the service
  row, whose columns have the same types, \<^verbatim>\<open>visit_type\<close> is one of the two values of the
  enum by the schema, and \<^verbatim>\<open>notes\<close> is TEXT.
\<close>

definition insert_booking :: "store \<Rightarrow> booking_row \<Rightarrow> store option" where
  "insert_booking st b =
     (if list_ex (\<lambda>c. bk_id c = bk_id b) (bookings st) \<or>
         (case bk_client_id b of
            None \<Rightarrow> False
          | Some cid \<Rightarrow> \<not> list_ex (\<lambda>u. usr_id u = cid) (users st)) \<or>
         \<not> list_ex (\<lambda>p. prof_id p = bk_professional_id b) (professionals st) \<or>
         \<not> list_ex (\<lambda>s. svc_id s = bk_service_id b) (services st) \<or>
         \<not> bk_start_time b < bk_end_time b
      then None
      else Some (st\<lparr>bookings := bookings st @ [b]\<rparr>))"

text \<open>
  The row both routes insert: status \<^verbatim>\<open>'pending'\<close>, notes \<^verbatim>\<open>notes || null\<close>, the cancellation
  columns null.
\<close>

definition new_booking ::
  "uuid \<Rightarrow> uuid \<Rightarrow> uuid option \<Rightarrow> booking_request \<Rightarrow> sql_date \<Rightarrow> sql_time \<Rightarrow> sql_time \<Rightarrow> booking_row"
where
  "new_booking bookingId tenantId clientId req d s e =
     \<lparr>bk_id = bookingId, bk_tenant_id = tenantId, bk_client_id = clientId,
      bk_professional_id = req_professional_id req, bk_service_id = req_service_id req,
      bk_date = d, bk_start_time = s, bk_end_time = e, bk_status = pending,
      bk_notes = (case req_notes req of
                    None \<Rightarrow> None
                  | Some notes \<Rightarrow> if notes = [] then None else Some notes),
      bk_cancelled_by = None, bk_cancellation_reason = None\<rparr>"

text \<open>
  POST /api/public/bookings. \<open>new_clientId\<close> and \<open>bookingId\<close> are the values the two
  \<^verbatim>\<open>uuid()\<close> calls return. The result is the response and the store the request leaves.
  The WebSocket event and the notification scheduling that follow the insert do not write
  to these tables and are left out.
\<close>

definition public_createBooking ::
  "store \<Rightarrow> uuid \<Rightarrow> booking_request \<Rightarrow> uuid \<Rightarrow> uuid \<Rightarrow> (http_error + booking_row) \<times> store"
where
  "public_createBooking st tenantId req new_clientId bookingId =
     (case (req_client_email req, req_client_name req) of
        (Some client_email, Some client_name) \<Rightarrow>
          if \<not> createPublicBookingSchema req then (Inl VALIDATION_ERROR, st)
          else
            (case find (\<lambda>s. svc_id s = req_service_id req \<and> svc_tenant_id s = tenantId \<and>
                            svc_is_active s) (services st) of
               None \<Rightarrow> (Inl NOT_FOUND, st)
             | Some service \<Rightarrow>
                 (case booking_params req of
                    None \<Rightarrow> (Inl INTERNAL_ERROR, st)
                  | Some (d, s, e) \<Rightarrow>
                      (case select_conflict st (req_professional_id req) d s e of
                         Some conflict \<Rightarrow> (Inl CONFLICT, st)
                       | None \<Rightarrow>
                           (case (case select_client st (toLowerCase client_email) tenantId of
                                    Some existingClient \<Rightarrow> Some (usr_id existingClient, st)
                                  | None \<Rightarrow>
                                      map_option (Pair new_clientId)
                                        (insert_user st
                                           (guest_user new_clientId tenantId client_email
                                              client_name (req_client_phone req)))) of
                              None \<Rightarrow> (Inl INTERNAL_ERROR, st)
                            | Some (clientId, st1) \<Rightarrow>
                                (case insert_booking st1
                                        (new_booking bookingId tenantId (Some clientId) req
                                           d s e) of
                                   None \<Rightarrow> (Inl INTERNAL_ERROR, st1)
                                 | Some st2 \<Rightarrow>
                                     (Inr (new_booking bookingId tenantId (Some clientId) req
                                             d s e),
                                      st2))))))
      | _ \<Rightarrow> (Inl VALIDATION_ERROR, st))"

text \<open>\<^verbatim>\<open>client_name || 'Guest'\<close> of POST /api/bookings.\<close>

definition name_or_Guest :: "string option \<Rightarrow> string" where
  "name_or_Guest client_name =
     (case client_name of
        None \<Rightarrow> ''Guest''
      | Some name \<Rightarrow> if name = [] then ''Guest'' else name)"

text \<open>
  POST /api/bookings. \<open>auth_user\<close> is \<^verbatim>\<open>req.user?.id\<close> (the route runs under
  \<^verbatim>\<open>optionalAuth\<close>); a guest client is looked up or created only when there is no
  authenticated user and the body carries \<open>client_email\<close>.
\<close>

definition bookings_create ::
  "store \<Rightarrow> uuid \<Rightarrow> uuid option \<Rightarrow> booking_request \<Rightarrow> uuid \<Rightarrow> uuid \<Rightarrow>
   (http_error + booking_row) \<times> store"
where
  "bookings_create st tenantId auth_user req new_clientId bookingId =
     (if \<not> createBookingSchema req then (Inl VALIDATION_ERROR, st)
      else
        (case find (\<lambda>s. svc_id s = req_service_id req \<and> svc_tenant_id s = tenantId)
                (services st) of
           None \<Rightarrow> (Inl NOT_FOUND, st)
         | Some service \<Rightarrow>
             (case booking_params req of
                None \<Rightarrow> (Inl INTERNAL_ERROR, st)
              | Some (d, s, e) \<Rightarrow>
                  (case select_conflict st (req_professional_id req) d s e of
                     Some conflict \<Rightarrow> (Inl CONFLICT, st)
                   | None \<Rightarrow>
                       (case (case (auth_user, req_client_email req) of
                                (None, Some client_email) \<Rightarrow>
                                  (case select_client st (toLowerCase client_email) tenantId of
                                     Some existingClient \<Rightarrow>
                                       Some (Some (usr_id existingClient), st)
                                   | None \<Rightarrow>
                                       map_option (Pair (Some new_clientId))
                                         (insert_user st
                                            (guest_user new_clientId tenantId client_email
                                               (name_or_Guest (req_client_name req))
                                               (req_client_phone req))))
                              | _ \<Rightarrow> Some (auth_user, st)) of
                          None \<Rightarrow> (Inl INTERNAL_ERROR, st)
                        | Some (clientId, st1) \<Rightarrow>
                            (case insert_booking st1
                                    (new_booking bookingId tenantId clientId req d s e) of
                               None \<Rightarrow> (Inl INTERNAL_ERROR, st1)
                             | Some st2 \<Rightarrow>
                                 (Inr (new_booking bookingId tenantId clientId req d s e),
                                  st2)))))))"

section \<open>POST /api/bookings, one database call at a time\<close>

text \<open>
  The handler is an \<^verbatim>\<open>async\<close> function: it gives up control at each
  \<^verbatim>\<open>await db.queryOne(...)\<close>, and every call is one statement sent to the pool outside any
  transaction. Between two of its statements the statements of another request can run.
  A request in flight is therefore a program counter naming the statement it is about to
  issue, and a step issues exactly that statement.
\<close>

datatype pc =
    PC_service
  | PC_conflict
  | PC_client string
  | PC_insert_user string
  | PC_insert_booking "uuid option"
  | PC_done "http_error + booking_row"

record create_call =
  call_tenantId :: uuid
  call_auth_user :: "uuid option"
  call_req :: booking_request
  call_new_clientId :: uuid
  call_bookingId :: uuid

fun create_step :: "create_call \<Rightarrow> store \<times> pc \<Rightarrow> store \<times> pc" where
  "create_step c (st, PC_service) =
     (if \<not> createBookingSchema (call_req c) then (st, PC_done (Inl VALIDATION_ERROR))
      else
        (case find (\<lambda>s. svc_id s = req_service_id (call_req c) \<and>
                        svc_tenant_id s = call_tenantId c) (services st) of
           None \<Rightarrow> (st, PC_done (Inl NOT_FOUND))
         | Some service \<Rightarrow> (st, PC_conflict)))"
| "create_step c (st, PC_conflict) =
     (case booking_params (call_req c) of
        None \<Rightarrow> (st, PC_done (Inl INTERNAL_ERROR))
      | Some (d, s, e) \<Rightarrow>
          (case select_conflict st (req_professional_id (call_req c)) d s e of
             Some conflict \<Rightarrow> (st, PC_done (Inl CONFLICT))
           | None \<Rightarrow>
               (case (call_auth_user c, req_client_email (call_req c)) of
                  (None, Some client_email) \<Rightarrow> (st, PC_client client_email)
                | _ \<Rightarrow> (st, PC_insert_booking (call_auth_user c)))))"
| "create_step c (st, PC_client client_email) =
     (case select_client st (toLowerCase client_email) (call_tenantId c) of
        Some existingClient \<Rightarrow> (st, PC_insert_booking (Some (usr_id existingClient)))
      | None \<Rightarrow> (st, PC_insert_user client_email))"
| "create_step c (st, PC_insert_user client_email) =
     (case insert_user st
             (guest_user (call_new_clientId c) (call_tenantId c) client_email
                (name_or_Guest (req_client_name (call_req c)))
                (req_client_phone (call_req c))) of
        None \<Rightarrow> (st, PC_done (Inl INTERNAL_ERROR))
      | Some st1 \<Rightarrow> (st1, PC_insert_booking (Some (call_new_clientId c))))"
| "create_step c (st, PC_insert_booking clientId) =
     (case booking_params (call_req c) of
        None \<Rightarrow> (st, PC_done (Inl INTERNAL_ERROR))
      | Some (d, s, e) \<Rightarrow>
          (case insert_booking st
                  (new_booking (call_bookingId c) (call_tenantId c) clientId (call_req c)
                     d s e) of
             None \<Rightarrow> (st, PC_done (Inl INTERNAL_ERROR))
           | Some st2 \<Rightarrow>
               (st2, PC_done (Inr (new_booking (call_bookingId c) (call_tenantId c) clientId
                                     (call_req c) d s e)))))"
| "create_step c (st, PC_done r) = (st, PC_done r)"

text \<open>
  Two requests in flight against one store. A schedule says, statement by statement, which
  of the two runs next (\<open>True\<close>: the first).
\<close>

fun run_two ::
  "create_call \<Rightarrow> create_call \<Rightarrow> bool list \<Rightarrow> store \<times> pc \<times> pc \<Rightarrow> store \<times> pc \<times> pc"
where
  "run_two a b [] cfg = cfg"
| "run_two a b (first # schedule) (st, pa, pb) =
     (if first
      then (case create_step a (st, pa) of (st', pa') \<Rightarrow> run_two a b schedule (st', pa', pb))
      else (case create_step b (st, pb) of (st', pb') \<Rightarrow> run_two a b schedule (st', pa, pb')))"

text \<open>
  Two rows that the booking invariant forbids together: same professional and date, neither
  cancelled, overlapping \<^verbatim>\<open>[start_time, end_time)\<close>.
\<close>

definition double_booked :: "booking_row \<Rightarrow> booking_row \<Rightarrow> bool" where
  "double_booked x y =
     (bk_professional_id x = bk_professional_id y \<and> bk_date x = bk_date y \<and>
      bk_status x \<noteq> cancelled \<and> bk_status y \<noteq> cancelled \<and>
      bk_start_time x < bk_end_time y \<and> bk_start_time y < bk_end_time x)"

section \<open>The lifecycle routes\<close>

text \<open>
  An \<^verbatim>\<open>UPDATE bookings SET ... WHERE ... RETURNING *\<close>: every row the condition selects
  is changed; \<^verbatim>\<open>queryOne\<close> hands back the first returned row or null.
\<close>

definition update_bookings ::
  "(booking_row \<Rightarrow> bool) \<Rightarrow> (booking_row \<Rightarrow> booking_row) \<Rightarrow> store \<Rightarrow> booking_row option \<times> store"
where
  "update_bookings cond change st =
     (map_option change (find cond (bookings st)),
      st\<lparr>bookings := map (\<lambda>b. if cond b then change b else b) (bookings st)\<rparr>)"

record update_request =
  upd_status :: "booking_status option"
  upd_notes :: "string option"
  upd_cancellation_reason :: "string option"

text \<open>
  PATCH /api/bookings/:id (staff). The result \<open>Inr None\<close> is the \<^verbatim>\<open>'No changes'\<close> reply.
  \<open>user_id\<close> is the authenticated staff member, \<open>booking_id\<close> is \<^verbatim>\<open>req.params.id\<close>.
\<close>

definition bookings_patch ::
  "store \<Rightarrow> uuid \<Rightarrow> uuid \<Rightarrow> uuid \<Rightarrow> update_request \<Rightarrow>
   (http_error + booking_row option) \<times> store"
where
  "bookings_patch st tenantId user_id booking_id req =
     (if upd_status req = None \<and> upd_notes req = None \<and> upd_cancellation_reason req = None
      then (Inr None, st)
      else
        (case update_bookings (\<lambda>b. bk_id b = booking_id \<and> bk_tenant_id b = tenantId)
                (\<lambda>b. let b1 = (case upd_status req of
                                  None \<Rightarrow> b
                                | Some status \<Rightarrow>
                                    if status = cancelled
                                    then b\<lparr>bk_status := status, bk_cancelled_by := Some user_id\<rparr>
                                    else b\<lparr>bk_status := status\<rparr>);
                          b2 = (case upd_notes req of
                                  None \<Rightarrow> b1
                                | Some notes \<Rightarrow> b1\<lparr>bk_notes := Some notes\<rparr>)
                      in (case upd_cancellation_reason req of
                            None \<Rightarrow> b2
                          | Some reason \<Rightarrow> b2\<lparr>bk_cancellation_reason := Some reason\<rparr>))
                st of
           (None, st') \<Rightarrow> (Inl NOT_FOUND, st')
         | (Some booking, st') \<Rightarrow> (Inr (Some booking), st')))"

text \<open>POST /api/bookings/:id/confirm (staff).\<close>

definition bookings_confirm ::
  "store \<Rightarrow> uuid \<Rightarrow> uuid \<Rightarrow> (http_error + booking_row) \<times> store" where
  "bookings_confirm st tenantId booking_id =
     (case update_bookings
             (\<lambda>b. bk_id b = booking_id \<and> bk_tenant_id b = tenantId \<and> bk_status b = pending)
             (\<lambda>b. b\<lparr>bk_status := confirmed\<rparr>) st of
        (None, st') \<Rightarrow> (Inl NOT_FOUND, st')
      | (Some booking, st') \<Rightarrow> (Inr booking, st'))"

text \<open>POST /api/bookings/:id/cancel. \<open>reason\<close> is \<^verbatim>\<open>reason || null\<close>.\<close>

definition bookings_cancel ::
  "store \<Rightarrow> uuid \<Rightarrow> uuid \<Rightarrow> uuid \<Rightarrow> string option \<Rightarrow> (http_error + booking_row) \<times> store"
where
  "bookings_cancel st tenantId user_id booking_id reason =
     (case update_bookings
             (\<lambda>b. bk_id b = booking_id \<and> bk_tenant_id b = tenantId \<and>
                   bk_status b \<noteq> cancelled \<and> bk_status b \<noteq> completed)
             (\<lambda>b. b\<lparr>bk_status := cancelled, bk_cancelled_by := Some user_id,
                     bk_cancellation_reason := reason\<rparr>) st of
        (None, st') \<Rightarrow> (Inl NOT_FOUND, st')
      | (Some booking, st') \<Rightarrow> (Inr booking, st'))"

text \<open>
  POST /api/bookings/:id/reschedule. The conflict query is the first statement that passes
  the new date and times; the UPDATE is subject to \<^verbatim>\<open>valid_booking_time\<close> like the INSERT.
\<close>

definition bookings_reschedule ::
  "store \<Rightarrow> uuid \<Rightarrow> uuid \<Rightarrow> string \<Rightarrow> string \<Rightarrow> string \<Rightarrow> (http_error + booking_row) \<times> store"
where
  "bookings_reschedule st tenantId booking_id date new_start new_end =
     (if \<not> (is_date date \<and> is_HHmm new_start \<and> is_HHmm new_end)
      then (Inl VALIDATION_ERROR, st)
      else
        (case find (\<lambda>b. bk_id b = booking_id \<and> bk_tenant_id b = tenantId) (bookings st) of
           None \<Rightarrow> (Inl NOT_FOUND, st)
         | Some original \<Rightarrow>
             (case (pg_date date, sql_time new_start, sql_time new_end) of
                (Some d, Some s, Some e) \<Rightarrow>
                  (case find (\<lambda>b. bk_professional_id b = bk_professional_id original \<and>
                                  bk_date b = d \<and> bk_status b \<noteq> cancelled \<and>
                                  bk_id b \<noteq> booking_id \<and>
                                  bk_start_time b < e \<and> bk_end_time b > s) (bookings st) of
                     Some conflict \<Rightarrow> (Inl CONFLICT, st)
                   | None \<Rightarrow>
                       if \<not> s < e then (Inl INTERNAL_ERROR, st)
                       else
                         (case update_bookings
                                 (\<lambda>b. bk_id b = booking_id \<and> bk_tenant_id b = tenantId)
                                 (\<lambda>b. b\<lparr>bk_date := d, bk_start_time := s,
                                         bk_end_time := e, bk_status := pending\<rparr>) st of
                            (None, st') \<Rightarrow> (Inl INTERNAL_ERROR, st')
                          | (Some booking, st') \<Rightarrow> (Inr booking, st')))
              | _ \<Rightarrow> (Inl INTERNAL_ERROR, st))))"

section \<open>A clinic to run the routes on\<close>

text \<open>
  One tenant with one professional of interest, one 30-minute service and, for that
  professional, one active weekly rule for Mondays, 09:00 to 12:00. The table also holds an
  inactive Monday rule of hers, her Tuesday rule and the Monday rule of a colleague.
  2024-01-08 is a Monday.
\<close>

definition monday_rule :: rule_row where
  "monday_rule =
     \<lparr>rule_tenant_id = ''t1'', rule_professional_id = ''p1'', rule_day_of_week = 1,
      rule_start_time = 540, rule_end_time = 720, rule_is_active = True\<rparr>"

definition consultation :: service_row where
  "consultation =
     \<lparr>svc_id = ''s1'', svc_tenant_id = ''t1'', svc_duration_minutes = 30,
      svc_is_active = True\<rparr>"

definition clinic :: store where
  "clinic =
     \<lparr>services = [consultation],
      professionals = [\<lparr>prof_id = ''p1'', prof_tenant_id = ''t1''\<rparr>,
                       \<lparr>prof_id = ''p2'', prof_tenant_id = ''t1''\<rparr>],
      users = [\<lparr>usr_id = ''u1'', usr_tenant_id = ''t1'', usr_email = ''ann@example.org'',
                usr_first_name = ''Ann'', usr_last_name = ''Lee'', usr_phone = None\<rparr>],
      availability_rules =
        [monday_rule\<lparr>rule_start_time := 480, rule_end_time := 1200, rule_is_active := False\<rparr>,
         monday_rule\<lparr>rule_day_of_week := 2, rule_start_time := 840, rule_end_time := 1080\<rparr>,
         monday_rule\<lparr>rule_professional_id := ''p2''\<rparr>,
         monday_rule],
      availability_exceptions = [],
      bookings = []\<rparr>"

text \<open>The same clinic with a confirmed booking 10:00 to 10:30 on that Monday.\<close>

definition booked_1000 :: booking_row where
  "booked_1000 =
     \<lparr>bk_id = ''b1'', bk_tenant_id = ''t1'', bk_client_id = Some ''u1'',
      bk_professional_id = ''p1'', bk_service_id = ''s1'', bk_date = (2024, 1, 8),
      bk_start_time = 600, bk_end_time = 630, bk_status = confirmed,
      bk_notes = None, bk_cancelled_by = None, bk_cancellation_reason = None\<rparr>"

definition clinic_booked :: store where
  "clinic_booked = clinic\<lparr>bookings := [booked_1000]\<rparr>"

text \<open>
  The clinic with an exception row for that Monday: available, with special hours 10:00 to
  11:00 (migration 005: \<^verbatim>\<open>is_available ... -- false = blocked, true = special hours\<close>).
\<close>

definition special_hours :: exception_row where
  "special_hours =
     \<lparr>exc_professional_id = ''p1'', exc_date = (2024, 1, 8), exc_is_available = True,
      exc_start_time = Some 600, exc_end_time = Some 660\<rparr>"

definition clinic_special :: store where
  "clinic_special = clinic\<lparr>availability_exceptions := [special_hours]\<rparr>"

text \<open>A guest asking for 10:00 to 10:30 on that Monday.\<close>

definition request_1000 :: booking_request where
  "request_1000 =
     \<lparr>req_professional_id = ''p1'', req_service_id = ''s1'', req_date = ''2024-01-08'',
      req_start_time = ''10:00'', req_end_time = ''10:30'', req_notes = None,
      req_client_email = Some ''bob@example.org'', req_client_name = Some ''Bob Ray'',
      req_client_phone = None\<rparr>"

text \<open>
  The same guest with the two times swapped. Each of them matches the pattern, and the
  schema does not compare them.
\<close>

definition request_backwards :: booking_request where
  "request_backwards = request_1000\<lparr>req_start_time := ''10:30'', req_end_time := ''10:00''\<rparr>"

definition guest_bob :: user_row where
  "guest_bob =
     \<lparr>usr_id = ''u2'', usr_tenant_id = ''t1'', usr_email = ''bob@example.org'',
      usr_first_name = ''Bob'', usr_last_name = ''Ray'', usr_phone = None\<rparr>"




text \<open>
  Two guests in flight at once for overlapping intervals of the same professional and
  date: Bob for 10:00 to 10:30, Carol for 10:15 to 10:45.
\<close>

definition call_bob :: create_call where
  "call_bob =
     \<lparr>call_tenantId = ''t1'', call_auth_user = None, call_req = request_1000,
      call_new_clientId = ''u2'', call_bookingId = ''b2''\<rparr>"

definition call_carol :: create_call where
  "call_carol =
     \<lparr>call_tenantId = ''t1'', call_auth_user = None,
      call_req = request_1000\<lparr>req_start_time := ''10:15'', req_end_time := ''10:45'',
                               req_client_email := Some ''carol@example.org'',
                               req_client_name := Some ''Carol''\<rparr>,
      call_new_clientId = ''u3'', call_bookingId = ''b3''\<rparr>"

definition guest_carol :: user_row where
  "guest_carol =
     \<lparr>usr_id = ''u3'', usr_tenant_id = ''t1'', usr_email = ''carol@example.org'',
      usr_first_name = ''Carol'', usr_last_name = '''', usr_phone = None\<rparr>"

text \<open>The rows the two requests insert.\<close>

definition bob_booking :: booking_row where
  "bob_booking = new_booking ''b2'' ''t1'' (Some ''u2'') (call_req call_bob) (2024, 1, 8) 600 630"

definition carol_booking :: booking_row where
  "carol_booking =
     new_booking ''b3'' ''t1'' (Some ''u3'') (call_req call_carol) (2024, 1, 8) 615 645"

text \<open>
  Both requests pass the service lookup and the conflict check before either inserts
  (\<open>True\<close>: Bob's next statement, \<open>False\<close>: Carol's).
\<close>

definition racing :: "bool list" where
  "racing = [True, True, False, False, True, True, True, False, False, False]"

definition one_after_the_other :: "bool list" where
  "one_after_the_other = [True, True, True, True, True, False, False, False, False, False]"

text \<open>The booking of the clinic in each of the three terminal states.\<close>

definition clinic_in :: "booking_status \<Rightarrow> store" where
  "clinic_in status = clinic\<lparr>bookings := [booked_1000\<lparr>bk_status := status\<rparr>]\<rparr>"

text \<open>The six slots of a free Monday morning.\<close>

definition morning_slots :: "slot list" where
  "morning_slots =
     [\<lparr>start_time = ''09:00'', end_time = ''09:30'', available = True\<rparr>,
      \<lparr>start_time = ''09:30'', end_time = ''10:00'', available = True\<rparr>,
      \<lparr>start_time = ''10:00'', end_time = ''10:30'', available = True\<rparr>,
      \<lparr>start_time = ''10:30'', end_time = ''11:00'', available = True\<rparr>,
      \<lparr>start_time = ''11:00'', end_time = ''11:30'', available = True\<rparr>,
      \<lparr>start_time = ''11:30'', end_time = ''12:00'', available = True\<rparr>]"



section \<open>Parsing what was formatted\<close>

lemma of_char_digit_char: "n < 10 \<Longrightarrow> (of_char (digit_char n) :: nat) = 48 + n"
  by (simp add: digit_char_def)


lemma digit_val_digit_char: "n < 10 \<Longrightarrow> digit_val (digit_char n) = n"
  by (simp add: digit_val_def of_char_digit_char)

lemma digit_char_neq_colon: "n < 10 \<Longrightarrow> digit_char n \<noteq> CHR '':''"
proof
  assume n: "n < 10" and e: "digit_char n = CHR '':''"
  have "(of_char (digit_char n) :: nat) = of_char CHR '':''" using e by simp
  then show False using n by (simp add: of_char_digit_char)
qed

lemma digit_char_inj: "a < 10 \<Longrightarrow> b < 10 \<Longrightarrow> digit_char a = digit_char b \<longleftrightarrow> a = b"
  by (metis digit_val_digit_char)

lemma digit_char_digit_val: "is_digit c \<Longrightarrow> digit_char (digit_val c) = c"
  unfolding is_digit_def digit_val_def digit_char_def
  by simp



lemma is_HHmm_parse:
  assumes "is_HHmm s"
  shows "\<exists>m. parse_HHmm s = Some m \<and> 0 \<le> m \<and> m < 1440 \<and> format_HHmm m = s"
proof -
  from assms obtain h1 h2 c m1 m2 where s: "s = [h1, h2, c, m1, m2]"
    by (auto elim: is_HHmm.elims)
  from assms have c: "c = CHR '':''" and dm1: "is_digit m1" "digit_val m1 \<le> 5" and dm2: "is_digit m2"
    and dh2: "is_digit h2"
    and hh: "((h1 = CHR ''0'' \<or> h1 = CHR ''1'')) \<or> (h1 = CHR ''2'' \<and> digit_val h2 \<le> 3)"
    unfolding s by auto
  have dh1: "is_digit h1" using hh by (auto simp: is_digit_def)
  have v2: "digit_val h2 < 10" "digit_val m2 < 10"
    using dh2 dm2 by (auto simp: is_digit_def digit_val_def)
  have H: "10 * digit_val h1 + digit_val h2 \<le> 23"
    using hh v2 by (auto simp: digit_val_def)
  have M: "10 * digit_val m1 + digit_val m2 \<le> 59" using dm1 v2 by simp
  define m where "m = 60 * (10 * digit_val h1 + digit_val h2) + (10 * digit_val m1 + digit_val m2)"
  have p: "parse_HHmm s = Some (int m)"
    using dh1 dh2 dm1 dm2 c H M by (simp add: s m_def)
  have lt: "m < 1440" using H M by (simp add: m_def)
  have q: "m div 60 = 10 * digit_val h1 + digit_val h2" using M by (simp add: m_def)
  have "m mod 60 = (10 * digit_val m1 + digit_val m2) mod 60"
    by (simp only: m_def mod_mult_self4)
  then have r: "m mod 60 = 10 * digit_val m1 + digit_val m2" using M by simp
  have f: "format_HHmm (int m) = s"
    using lt v2 dh1 dh2 dm1 dm2
    by (simp add: format_HHmm_def Let_def q r two_digits_def digit_char_digit_val s c)
  show ?thesis using p lt f by auto
qed

section \<open>The slot loop\<close>









lemma parse_HHmm_range:
  assumes "parse_HHmm s = Some a"
  shows "0 \<le> a \<and> a < 1440"
  using assms by (auto elim!: parse_HHmm.elims split: if_splits)





section \<open>Rule rows as the driver returns them\<close>

lemma parse_time_text: "parse_HHmm (time_text t) = None"
  by (simp add: time_text_def format_HHmm_def two_digits_def Let_def)

lemma generate_slots_time_text:
  "generate_slots d bks ((time_text a, re) # rules) slots = Some (Inl INTERNAL_ERROR)"
  by (simp add: parse_time_text)

lemma select_rules_cases:
  "select_rules st p t dow = [] \<or>
   (\<exists>a re rules. select_rules st p t dow = (time_text a, re) # rules)"
proof (cases "select_rules st p t dow")
  case Nil
  then show ?thesis by simp
next
  case (Cons r rules)
  then have "r \<in> set (select_rules st p t dow)" by simp
  then have "\<exists>a. fst r = time_text a"
    unfolding select_rules_def by (auto simp: rule_text_def)
  then obtain a where "fst r = time_text a" ..
  with Cons show ?thesis by (cases r) auto
qed

text \<open>
  Whatever the store holds, neither slot route ever returns a list with a slot in it: as
  soon as the rule query returns a row, the first loop test throws.
\<close>

lemma availability_getSlots_lists_nothing:
  assumes "availability_getSlots st t p date sid = Some (Inr xs)"
  shows "xs = []"
proof -
  define d where "d = (case sid of None \<Rightarrow> 30
       | Some i \<Rightarrow> (case find (\<lambda>s. svc_id s = i \<and> svc_tenant_id s = t) (services st) of
                     None \<Rightarrow> 30 | Some service \<Rightarrow> svc_duration_minutes service))"
  have gen: "generate_slots d bks (select_rules st p t dow) [] \<noteq> Some (Inr xs)"
    if "select_rules st p t dow \<noteq> []" for bks dow
    using select_rules_cases[of st p t dow] that
    by (auto simp: parse_time_text)
  show ?thesis
    using assms gen unfolding availability_getSlots_def Let_def d_def
    by (auto split: if_splits option.splits)
qed

lemma public_getSlots_lists_nothing:
  assumes "public_getSlots st t p sid date = Some (Inr xs)"
  shows "xs = []"
proof -
  have gen: "generate_slots d bks (select_rules st p t dow) [] = Some (Inl INTERNAL_ERROR)"
    if "select_rules st p t dow \<noteq> []" for bks dow d
    using select_rules_cases[of st p t dow] that
    by (auto simp: parse_time_text)
  show ?thesis
    using assms unfolding public_getSlots_def Let_def
    by (auto split: if_splits option.splits sum.splits simp: gen)
qed

text \<open>
  Claim C5 does not hold of the code. The clinic has, for the professional and the weekday
  of 2024-01-08, the single active rule 09:00 to 12:00, a 30-minute service, no exception
  and no booking. The rule query returns that one row with its times as \<^verbatim>\<open>09:00:00\<close> and
  \<^verbatim>\<open>12:00:00\<close>, \<^verbatim>\<open>parse(rule.start_time, 'HH:mm', dateObj)\<close> is an Invalid Date, and the
  first loop test throws: both slot routes answer with an internal error instead of the
  six slots 09:00-09:30 up to 11:30-12:00.
\<close>

theorem free_morning_request_fails:
  "parse_date ''2024-01-08'' = Some (2024, 1, 8) \<and> getDay (2024, 1, 8) = 1 \<and>
   select_rules clinic ''p1'' ''t1'' 1 = [(''09:00:00'', ''12:00:00'')] \<and>
   select_exception clinic ''p1'' (2024, 1, 8) = None \<and>
   select_existing_bookings clinic ''p1'' (2024, 1, 8) = [] \<and>
   parse_HHmm ''09:00:00'' = None \<and>
   availability_getSlots clinic ''t1'' ''p1'' ''2024-01-08'' (Some ''s1'') =
     Some (Inl INTERNAL_ERROR) \<and>
   availability_getSlots clinic ''t1'' ''p1'' ''2024-01-08'' None = Some (Inl INTERNAL_ERROR) \<and>
   public_getSlots clinic ''t1'' ''p1'' ''s1'' ''2024-01-08'' = Some (Inl INTERNAL_ERROR)"
  by code_simp

text \<open>
  Claim C4 does not hold of the code, for the same reason as C5: with the confirmed booking
  10:00 to 10:30 in the table, both slot routes answer with an internal error, so no list
  comes back in which the occupied entry could be kept and flagged.
\<close>

theorem booked_morning_request_fails:
  "select_rules clinic_booked ''p1'' ''t1'' 1 = [(''09:00:00'', ''12:00:00'')] \<and>
   select_existing_bookings clinic_booked ''p1'' (2024, 1, 8) = [(''10:00:00'', ''10:30:00'')] \<and>
   availability_getSlots clinic_booked ''t1'' ''p1'' ''2024-01-08'' (Some ''s1'') =
     Some (Inl INTERNAL_ERROR) \<and>
   public_getSlots clinic_booked ''t1'' ''p1'' ''s1'' ''2024-01-08'' = Some (Inl INTERNAL_ERROR)"
  by code_simp


section \<open>The special hours of an exception\<close>

text \<open>
  Neither slot route reads the \<^verbatim>\<open>start_time\<close> and \<^verbatim>\<open>end_time\<close> of an exception row: rewrite
  them in every row at will, and both routes answer as before.
\<close>

lemma find_map_list:
  "find P (map f xs) = map_option f (find (\<lambda>x. P (f x)) xs)"
  by (induction xs) auto

lemma select_exception_blocked_unused:
  "(case select_exception
           (st\<lparr>availability_exceptions :=
                 map (\<lambda>e. e\<lparr>exc_start_time := a e, exc_end_time := b e\<rparr>)
                   (availability_exceptions st)\<rparr>) p day of
      None \<Rightarrow> False | Some exception \<Rightarrow> \<not> exc_is_available exception) =
   (case select_exception st p day of
      None \<Rightarrow> False | Some exception \<Rightarrow> \<not> exc_is_available exception)"
  unfolding select_exception_def
  by (simp add: find_map_list split: option.splits)

lemma select_rules_exceptions:
  "select_rules (st\<lparr>availability_exceptions := X\<rparr>) p t dow = select_rules st p t dow"
  by (simp add: select_rules_def)

lemma select_existing_bookings_exceptions:
  "select_existing_bookings (st\<lparr>availability_exceptions := X\<rparr>) p day =
   select_existing_bookings st p day"
  by (simp add: select_existing_bookings_def)

lemma availability_getSlots_exception_times:
  "availability_getSlots
     (st\<lparr>availability_exceptions :=
           map (\<lambda>e. e\<lparr>exc_start_time := a e, exc_end_time := b e\<rparr>)
             (availability_exceptions st)\<rparr>) t p date sid =
   availability_getSlots st t p date sid"
  unfolding availability_getSlots_def select_exception_blocked_unused
    select_rules_exceptions select_existing_bookings_exceptions
  by (simp cong: option.case_cong if_cong)

lemma public_getSlots_exception_times:
  "public_getSlots
     (st\<lparr>availability_exceptions :=
           map (\<lambda>e. e\<lparr>exc_start_time := a e, exc_end_time := b e\<rparr>)
             (availability_exceptions st)\<rparr>) t p sid date =
   public_getSlots st t p sid date"
  unfolding public_getSlots_def select_exception_blocked_unused
    select_rules_exceptions select_existing_bookings_exceptions
  by (simp cong: option.case_cong if_cong)

text \<open>
  Claim C3 does not hold of the code. The clinic's professional has the weekly rule 09:00
  to 12:00 for Mondays and, for Monday 2024-01-08, an exception row that is available with
  the special hours 10:00 to 11:00. The exception query finds the row, the routes test
  only \<^verbatim>\<open>exception && !exception.is_available\<close> and go on to the weekly rules; the special
  hours are never read (the two lemmas above). With the rule's times as the driver returns
  them, both routes answer with an internal error, as they do without the exception row;
  and were the rule's times \<^verbatim>\<open>HH:mm\<close> strings, the loop would deliver the six weekly slots
  from 09:00 to 12:00. In neither case are the slots those of the window 10:00 to 11:00.
\<close>

theorem special_hours_ignored:
  "select_exception clinic_special ''p1'' (2024, 1, 8) = Some special_hours \<and>
   exc_is_available special_hours \<and>
   exc_start_time special_hours = Some 600 \<and> exc_end_time special_hours = Some 660 \<and>
   select_rules clinic_special ''p1'' ''t1'' (getDay (2024, 1, 8)) =
     [(''09:00:00'', ''12:00:00'')] \<and>
   availability_getSlots clinic_special ''t1'' ''p1'' ''2024-01-08'' (Some ''s1'') =
     Some (Inl INTERNAL_ERROR) \<and>
   public_getSlots clinic_special ''t1'' ''p1'' ''s1'' ''2024-01-08'' =
     Some (Inl INTERNAL_ERROR) \<and>
   availability_getSlots clinic ''t1'' ''p1'' ''2024-01-08'' (Some ''s1'') =
     Some (Inl INTERNAL_ERROR) \<and>
   generate_slots 30 (select_existing_bookings clinic_special ''p1'' (2024, 1, 8))
     [(''09:00'', ''12:00'')] [] = Some (Inr morning_slots) \<and>
   generate_slots 30 (select_existing_bookings clinic_special ''p1'' (2024, 1, 8))
     [(''10:00'', ''11:00'')] [] =
     Some (Inr [\<lparr>start_time = ''10:00'', end_time = ''10:30'', available = True\<rparr>,
                \<lparr>start_time = ''10:30'', end_time = ''11:00'', available = True\<rparr>])"
  by code_simp

section \<open>Creating a booking, one request at a time\<close>













section \<open>A failed insert after the guest was created\<close>

text \<open>
  Claim C9 does not hold of the code. Neither create route opens a transaction
  (\<^verbatim>\<open>db.transaction\<close> is used by the professional and registration routes, not here): the
  guest row and the booking row are two separate statements. A guest request with the two
  times swapped passes validation and the conflict check, the guest is inserted, and then
  the booking insert violates \<^verbatim>\<open>valid_booking_time\<close>: the request fails and the guest row
  stays.
\<close>

theorem failed_reservation_leaves_guest:
  "public_createBooking clinic ''t1'' request_backwards ''u2'' ''b2'' =
     (Inl INTERNAL_ERROR, clinic\<lparr>users := users clinic @ [guest_bob]\<rparr>) \<and>
   bookings_create clinic ''t1'' None request_backwards ''u2'' ''b2'' =
     (Inl INTERNAL_ERROR, clinic\<lparr>users := users clinic @ [guest_bob]\<rparr>) \<and>
   clinic\<lparr>users := users clinic @ [guest_bob]\<rparr> \<noteq> clinic"
  by code_simp

section \<open>Two requests in flight\<close>

lemma funpow5: "(f ^^ 5) x = f (f (f (f (f x))))"
  by (simp add: eval_nat_numeral)

lemma create_steps_alone:
  "(create_step c ^^ 5) (st, PC_service) =
     (snd (bookings_create st (call_tenantId c) (call_auth_user c) (call_req c)
             (call_new_clientId c) (call_bookingId c)),
      PC_done (fst (bookings_create st (call_tenantId c) (call_auth_user c) (call_req c)
             (call_new_clientId c) (call_bookingId c))))"
  unfolding funpow5 bookings_create_def
  by (auto split: option.splits)

text \<open>
  Claim C1 does not hold of the code. The conflict check and the insert are two statements
  with nothing holding them together (no transaction, no lock, no exclusion constraint on
  the table), so both requests can pass the check before either inserts. In that schedule
  both are answered with their new booking and the table holds two overlapping bookings,
  neither cancelled, for the same professional and date. Handled one after the other, the
  second request gets CONFLICT.
\<close>

theorem racing_requests_double_book:
  "run_two call_bob call_carol racing (clinic, PC_service, PC_service) =
     (clinic\<lparr>users := users clinic @ [guest_bob, guest_carol],
             bookings := [bob_booking, carol_booking]\<rparr>,
      PC_done (Inr bob_booking), PC_done (Inr carol_booking)) \<and>
   double_booked bob_booking carol_booking \<and>
   snd (snd (run_two call_bob call_carol one_after_the_other (clinic, PC_service, PC_service))) =
     PC_done (Inl CONFLICT)"
  by code_simp

section \<open>Status changes of existing bookings\<close>

lemma update_bookings_rows:
  "list_all2 (\<lambda>b b'. b' = (if cond b then change b else b)) (bookings st)
     (bookings (snd (update_bookings cond change st)))"
  by (simp add: update_bookings_def list_all2_map2 list_all2_same)

lemma confirm_rows:
  "list_all2 (\<lambda>b b'. b' = (if bk_id b = i \<and> bk_tenant_id b = t \<and> bk_status b = pending
                            then b\<lparr>bk_status := confirmed\<rparr> else b))
     (bookings st) (bookings (snd (bookings_confirm st t i)))"
  using update_bookings_rows[of "\<lambda>b. bk_id b = i \<and> bk_tenant_id b = t \<and> bk_status b = pending"
      "\<lambda>b. b\<lparr>bk_status := confirmed\<rparr>" st]
  by (auto simp: bookings_confirm_def split: prod.splits option.splits)

lemma cancel_rows:
  "list_all2 (\<lambda>b b'. b' = (if bk_id b = i \<and> bk_tenant_id b = t \<and>
                               bk_status b \<noteq> cancelled \<and> bk_status b \<noteq> completed
                            then b\<lparr>bk_status := cancelled, bk_cancelled_by := Some u,
                                   bk_cancellation_reason := reason\<rparr> else b))
     (bookings st) (bookings (snd (bookings_cancel st t u i reason)))"
  using update_bookings_rows[of "\<lambda>b. bk_id b = i \<and> bk_tenant_id b = t \<and>
                               bk_status b \<noteq> cancelled \<and> bk_status b \<noteq> completed"
      "\<lambda>b. b\<lparr>bk_status := cancelled, bk_cancelled_by := Some u,
                                   bk_cancellation_reason := reason\<rparr>" st]
  by (auto simp: bookings_cancel_def split: prod.splits option.splits)

text \<open>
  Claim C8, as far as the routes guard the current status. Confirm changes only pending
  bookings, so it leaves every completed, cancelled or no-show booking as it is; cancel
  leaves every completed or cancelled booking as it is. Rows are compared position by
  position before and after the request. The status update PATCH /:id carries no such
  guard: the addressed booking gets the requested status whatever its current one.
\<close>

theorem guarded_status_changes:
  "list_all2 (\<lambda>b b'. bk_status b \<in> {completed, cancelled, no_show} \<longrightarrow> b' = b)
     (bookings st) (bookings (snd (bookings_confirm st t i))) \<and>
   list_all2 (\<lambda>b b'. bk_status b \<in> {completed, cancelled} \<longrightarrow> b' = b)
     (bookings st) (bookings (snd (bookings_cancel st t u i reason))) \<and>
   list_all2 (\<lambda>b b'. bk_id b = i \<and> bk_tenant_id b = t \<longrightarrow> bk_status b' = new_status)
     (bookings st)
     (bookings (snd (bookings_patch st t u i
        \<lparr>upd_status = Some new_status, upd_notes = notes, upd_cancellation_reason = why\<rparr>)))"
proof (intro conjI)
  show "list_all2 (\<lambda>b b'. bk_status b \<in> {completed, cancelled, no_show} \<longrightarrow> b' = b)
     (bookings st) (bookings (snd (bookings_confirm st t i)))"
    by (rule list_all2_mono[OF confirm_rows]) auto
  show "list_all2 (\<lambda>b b'. bk_status b \<in> {completed, cancelled} \<longrightarrow> b' = b)
     (bookings st) (bookings (snd (bookings_cancel st t u i reason)))"
    by (rule list_all2_mono[OF cancel_rows]) auto
  let ?change = "\<lambda>b. let b1 = (case Some new_status of
                                  None \<Rightarrow> b
                                | Some status \<Rightarrow>
                                    if status = cancelled
                                    then b\<lparr>bk_status := status, bk_cancelled_by := Some u\<rparr>
                                    else b\<lparr>bk_status := status\<rparr>);
                          b2 = (case notes of
                                  None \<Rightarrow> b1
                                | Some n \<Rightarrow> b1\<lparr>bk_notes := Some n\<rparr>)
                      in (case why of
                            None \<Rightarrow> b2
                          | Some r \<Rightarrow> b2\<lparr>bk_cancellation_reason := Some r\<rparr>)"
  have st: "bk_status (?change b) = new_status" for b :: booking_row
    by (simp add: Let_def split: option.splits)
  have eq: "bookings (snd (bookings_patch st t u i
        \<lparr>upd_status = Some new_status, upd_notes = notes, upd_cancellation_reason = why\<rparr>)) =
      bookings (snd (update_bookings (\<lambda>b. bk_id b = i \<and> bk_tenant_id b = t) ?change st))"
    by (auto simp: bookings_patch_def split: prod.splits option.splits)
  show "list_all2 (\<lambda>b b'. bk_id b = i \<and> bk_tenant_id b = t \<longrightarrow> bk_status b' = new_status)
     (bookings st)
     (bookings (snd (bookings_patch st t u i
        \<lparr>upd_status = Some new_status, upd_notes = notes, upd_cancellation_reason = why\<rparr>)))"
    unfolding eq
    by (rule list_all2_mono[OF update_bookings_rows]) (use st in auto)
qed

theorem guarded_status_changes_witness:
  "list_all2 (\<lambda>b b'. bk_status b \<in> {completed, cancelled, no_show} \<longrightarrow> b' = b)
     (bookings (clinic_in no_show)) (bookings (snd (bookings_confirm (clinic_in no_show) ''t1'' ''b1''))) \<and>
   list_all2 (\<lambda>b b'. bk_status b \<in> {completed, cancelled} \<longrightarrow> b' = b)
     (bookings (clinic_in completed))
     (bookings (snd (bookings_cancel (clinic_in completed) ''t1'' ''u1'' ''b1'' None))) \<and>
   bk_status (booked_1000\<lparr>bk_status := no_show\<rparr>) \<in> {completed, cancelled, no_show} \<and>
   bk_status (booked_1000\<lparr>bk_status := completed\<rparr>) \<in> {completed, cancelled} \<and>
   bookings (snd (bookings_confirm (clinic_in no_show) ''t1'' ''b1'')) = bookings (clinic_in no_show) \<and>
   bookings (snd (bookings_cancel (clinic_in completed) ''t1'' ''u1'' ''b1'' None)) =
     bookings (clinic_in completed)"
proof -
  have a: "bookings (snd (bookings_confirm (clinic_in no_show) ''t1'' ''b1'')) = bookings (clinic_in no_show)"
    by code_simp
  have b: "bookings (snd (bookings_cancel (clinic_in completed) ''t1'' ''u1'' ''b1'' None)) =
     bookings (clinic_in completed)"
    by code_simp
  from guarded_status_changes[of "clinic_in no_show" "''t1''" "''b1''"]
       guarded_status_changes[of "clinic_in completed" "''t1''" "''b1''" "''u1''" None]
       a b
  show ?thesis by simp
qed

text \<open>
  As stated the claim fails: PATCH moves a completed booking to pending, reschedule moves a
  cancelled booking to pending (at its new time), and cancel moves a no-show booking to
  cancelled.
\<close>

theorem terminal_status_counterexample:
  "map bk_status (bookings (clinic_in completed)) = [completed] \<and>
   map bk_status (bookings (snd (bookings_patch (clinic_in completed) ''t1'' ''u1'' ''b1''
      \<lparr>upd_status = Some pending, upd_notes = None, upd_cancellation_reason = None\<rparr>))) = [pending] \<and>
   map bk_status (bookings (clinic_in cancelled)) = [cancelled] \<and>
   map bk_status (bookings (snd (bookings_reschedule (clinic_in cancelled) ''t1'' ''b1''
      ''2024-01-08'' ''11:00'' ''11:30''))) = [pending] \<and>
   map bk_status (bookings (clinic_in no_show)) = [no_show] \<and>
   map bk_status (bookings (snd (bookings_cancel (clinic_in no_show) ''t1'' ''u1'' ''b1'' None))) =
     [cancelled]"
  by code_simp

end
